theory Spec2Isabelle
  imports Complex_Main
begin

section \<open>Remote Render add-on: data model\<close>

text \<open>
  The add-on (\<^verbatim>\<open>renderer-ui.py\<close>) keeps a collection of job records in the
  scene settings, submits scenes to a render server over HTTP and polls the
  server from one background thread per job.  Pure parts of the code are HOL
  functions; the network, the file system, the desktop notification module and
  the clock are inputs of the functions that use them, and everything a
  function does to the outside is recorded in a list of events.
\<close>

subsection \<open>Python values and exceptions\<close>

text \<open>
  A parsed JSON body.  A Python dict is an association list searched from the
  front.  Floats are rationals (NaN and the infinities are left out).
\<close>

datatype json =
    JNull
  | JBool bool
  | JInt int
  | JFloat rat
  | JString string
  | JArray "json list"
  | JObject "(string \<times> json) list"

datatype exc_class =
    ImportError | AttributeError | TypeError | ValueError | IndexError
  | JSONDecodeError | OSError | RequestException | RuntimeError

text \<open>An exception: its class and \<^verbatim>\<open>str(e)\<close>.  All of them derive from \<^verbatim>\<open>Exception\<close>.\<close>

datatype py_exception = PyExc (exc_of: exc_class) (str_of: string)

text \<open>\<^verbatim>\<open>d.get(key, default)\<close>: only a dict has the method.\<close>

fun py_get :: "json \<Rightarrow> string \<Rightarrow> json \<Rightarrow> py_exception + json" where
  "py_get (JObject kvs) k d = Inr (case map_of kvs k of None \<Rightarrow> d | Some v \<Rightarrow> v)"
| "py_get _ k d = Inl (PyExc AttributeError ''object has no attribute 'get' '')"

text \<open>Truth value of a Python object.\<close>

fun py_truthy :: "json \<Rightarrow> bool" where
  "py_truthy JNull = False"
| "py_truthy (JBool b) = b"
| "py_truthy (JInt n) = (n \<noteq> 0)"
| "py_truthy (JFloat r) = (r \<noteq> 0)"
| "py_truthy (JString s) = (s \<noteq> [])"
| "py_truthy (JArray xs) = (xs \<noteq> [])"
| "py_truthy (JObject kvs) = (kvs \<noteq> [])"

subsection \<open>Decimal text\<close>

definition digit_char :: "nat \<Rightarrow> char" where
  "digit_char d = char_of (of_char (CHR ''0'') + d)"

fun str_nat :: "nat \<Rightarrow> string" where
  "str_nat n = (if n < 10 then [digit_char n] else str_nat (n div 10) @ [digit_char (n mod 10)])"

declare str_nat.simps [simp del]

text \<open>\<^verbatim>\<open>str(n)\<close> on an int, as an f-string renders it.\<close>

definition str_int :: "int \<Rightarrow> string" where
  "str_int i = (if i < 0 then CHR ''-'' # str_nat (nat (- i)) else str_nat (nat i))"

definition digit_val :: "char \<Rightarrow> nat option" where
  "digit_val c =
     (let n = (of_char c :: nat) in if 48 \<le> n \<and> n \<le> 57 then Some (n - 48) else None)"

text \<open>
  The digits of an int literal after the first one: single underscores may
  separate digits.
\<close>

fun digits_acc :: "nat \<Rightarrow> string \<Rightarrow> nat option" where
  "digits_acc acc [] = Some acc"
| "digits_acc acc [c] = map_option (\<lambda>v. acc * 10 + v) (digit_val c)"
| "digits_acc acc (c # d # ds) =
     (if c = CHR ''_''
      then (case digit_val d of None \<Rightarrow> None | Some v \<Rightarrow> digits_acc (acc * 10 + v) ds)
      else (case digit_val c of None \<Rightarrow> None | Some v \<Rightarrow> digits_acc (acc * 10 + v) (d # ds)))"

definition is_space :: "char \<Rightarrow> bool" where
  "is_space c = (let n = (of_char c :: nat) in (9 \<le> n \<and> n \<le> 13) \<or> (28 \<le> n \<and> n \<le> 32))"

definition strip :: "string \<Rightarrow> string" where
  "strip s = rev (dropWhile is_space (rev (dropWhile is_space s)))"

definition parse_unsigned :: "string \<Rightarrow> nat option" where
  "parse_unsigned s =
     (case s of [] \<Rightarrow> None
      | c # cs \<Rightarrow> (case digit_val c of None \<Rightarrow> None | Some v \<Rightarrow> digits_acc v cs))"

text \<open>
  \<^verbatim>\<open>int(s)\<close> on a string of ASCII characters: surrounding white space, an
  optional sign, decimal digits.
\<close>

definition int_of_str :: "string \<Rightarrow> py_exception + int" where
  "int_of_str s =
     (let t = strip s;
          bad = Inl (PyExc ValueError (''invalid literal for int() with base 10: '' @ s))
      in case t of
           [] \<Rightarrow> bad
         | c # cs \<Rightarrow>
             if c = CHR ''-'' then (case parse_unsigned cs of None \<Rightarrow> bad | Some n \<Rightarrow> Inr (- int n))
             else if c = CHR ''+'' then (case parse_unsigned cs of None \<Rightarrow> bad | Some n \<Rightarrow> Inr (int n))
             else (case parse_unsigned t of None \<Rightarrow> bad | Some n \<Rightarrow> Inr (int n)))"

text \<open>\<^verbatim>\<open>int(x)\<close>: a float is truncated towards zero, \<^verbatim>\<open>None\<close>, a list and a dict raise.\<close>

fun py_int :: "json \<Rightarrow> py_exception + int" where
  "py_int (JInt n) = Inr n"
| "py_int (JBool b) = Inr (if b then 1 else 0)"
| "py_int (JFloat r) = Inr (if r < 0 then - \<lfloor>- r\<rfloor> else \<lfloor>r\<rfloor>)"
| "py_int (JString s) = int_of_str s"
| "py_int _ = Inl (PyExc TypeError ''int() argument must be a string, a bytes-like object or a real number'')"

subsection \<open>Property groups\<close>

text \<open>\<^verbatim>\<open>class RemoteRenderJob(PropertyGroup)\<close>, lines 20--28.\<close>

record RemoteRenderJob =
  job_id :: string
  scene_name :: string
  submitted_time :: string
  status :: string
  progress :: int
  is_complete :: bool
  has_notification :: bool
  error_message :: string

text \<open>The record \<^verbatim>\<open>settings.jobs.add()\<close> appends: every property at its declared default.\<close>

definition default_job :: RemoteRenderJob where
  "default_job =
     \<lparr>job_id = '''', scene_name = '''', submitted_time = '''', status = ''SUBMITTED'',
      progress = 0, is_complete = False, has_notification = True, error_message = ''''\<rparr>"

text \<open>
  Python strs are modelled by their UTF-8 encoding.  \<^verbatim>\<open>s[:n]\<close> keeps the first
  \<^verbatim>\<open>n\<close> characters: each is a lead byte with the continuation bytes after it.
\<close>

definition is_continuation :: "char \<Rightarrow> bool" where
  "is_continuation c = (let n = (of_char c :: nat) in 128 \<le> n \<and> n < 192)"

fun str_take :: "nat \<Rightarrow> string \<Rightarrow> string" where
  "str_take 0 s = []"
| "str_take (Suc n) [] = []"
| "str_take (Suc n) (c # cs) =
     c # takeWhile is_continuation cs @ str_take n (dropWhile is_continuation cs)"

text \<open>
  A \<^verbatim>\<open>StringProperty\<close> keeps its value as a C string: what is stored, and read
  back later, ends before the first NUL.
\<close>

definition c_string :: "string \<Rightarrow> string" where
  "c_string s = takeWhile (\<lambda>c. c \<noteq> CHR 0x00) s"

text \<open>Assigning to a \<^verbatim>\<open>StringProperty\<close>: anything but a \<^verbatim>\<open>str\<close> raises.\<close>

fun str_value :: "json \<Rightarrow> py_exception + string" where
  "str_value (JString s) = Inr s"
| "str_value _ = Inl (PyExc TypeError ''expected a string type'')"

text \<open>The value the property holds after the assignment.\<close>

definition string_prop :: "json \<Rightarrow> py_exception + string" where
  "string_prop v = (case str_value v of Inl e \<Rightarrow> Inl e | Inr s \<Rightarrow> Inr (c_string s))"

text \<open>
  Assigning to \<^verbatim>\<open>progress\<close>, an \<^verbatim>\<open>IntProperty(min=0, max=100)\<close>: a value outside
  the C int range raises, any other is clamped to the declared range.
\<close>

definition progress_prop :: "int \<Rightarrow> py_exception + int" where
  "progress_prop v =
     (if v < - (2 ^ 31) \<or> 2 ^ 31 \<le> v then Inl (PyExc ValueError ''value not in 'int' range'')
      else Inr (max 0 (min 100 v)))"

datatype render_quality = CUSTOM | FAST | HIGH

fun quality_name :: "render_quality \<Rightarrow> string" where
  "quality_name CUSTOM = ''CUSTOM''"
| "quality_name FAST = ''FAST''"
| "quality_name HIGH = ''HIGH''"

text \<open>\<^verbatim>\<open>class ServerIntegratedSettings(PropertyGroup)\<close>, lines 30--71.\<close>

record ServerIntegratedSettings =
  server_url :: string
  start_frame :: int
  end_frame :: int
  jobs :: "RemoteRenderJob list"
  show_notifications :: bool
  render_quality :: render_quality
  server_status :: string
  last_check :: string

subsection \<open>The job collection\<close>

text \<open>
  \<^verbatim>\<open>collection.remove(index)\<close>: an index outside the collection removes nothing.
\<close>

definition collection_remove :: "'a list \<Rightarrow> int \<Rightarrow> 'a list" where
  "collection_remove xs i =
     (if 0 \<le> i \<and> i < int (length xs) then take (nat i) xs @ drop (Suc (nat i)) xs else xs)"

text \<open>\<^verbatim>\<open>INTEGRATED_OT_clear_job.execute\<close>, lines 384--387.\<close>

definition clear_job :: "int \<Rightarrow> ServerIntegratedSettings \<Rightarrow> ServerIntegratedSettings" where
  "clear_job job_index settings = settings\<lparr>jobs := collection_remove (jobs settings) job_index\<rparr>"

text \<open>
  The loop of \<^verbatim>\<open>INTEGRATED_OT_clear_all_jobs.execute\<close>, lines 397--399:
  \<^verbatim>\<open>clear_all_loop n js\<close> runs the iterations for \<^verbatim>\<open>i = n - 1, ..., 0\<close>.
  Reading \<^verbatim>\<open>settings.jobs[i]\<close> outside the collection raises \<^verbatim>\<open>IndexError\<close>.
\<close>

fun clear_all_loop :: "nat \<Rightarrow> RemoteRenderJob list \<Rightarrow> py_exception + RemoteRenderJob list" where
  "clear_all_loop 0 js = Inr js"
| "clear_all_loop (Suc i) js =
     (if i < length js
      then (if is_complete (js ! i) then clear_all_loop i (collection_remove js (int i))
            else clear_all_loop i js)
      else Inl (PyExc IndexError ''bpy_prop_collection[index]: index out of range''))"

definition clear_all_jobs ::
  "ServerIntegratedSettings \<Rightarrow> py_exception + ServerIntegratedSettings" where
  "clear_all_jobs settings =
     (case clear_all_loop (length (jobs settings)) (jobs settings) of
        Inl e \<Rightarrow> Inl e
      | Inr js \<Rightarrow> Inr (settings\<lparr>jobs := js\<rparr>))"

text \<open>The counters of \<^verbatim>\<open>draw_jobs_section\<close>, lines 500--502.\<close>

definition completed_count :: "RemoteRenderJob list \<Rightarrow> nat" where
  "completed_count js = length (filter is_complete js)"

definition pending_count :: "RemoteRenderJob list \<Rightarrow> int" where
  "pending_count js = int (length js) - int (completed_count js)"

definition new_count :: "RemoteRenderJob list \<Rightarrow> nat" where
  "new_count js = length (filter has_notification js)"

text \<open>Line 504: the red badge row is drawn when \<^verbatim>\<open>new_count > 0\<close>.\<close>

definition badge_shown :: "RemoteRenderJob list \<Rightarrow> bool" where
  "badge_shown js = (new_count js > 0)"

section \<open>The outside world\<close>

text \<open>
  What a request returns: \<^verbatim>\<open>requests\<close> raises, or there is a response with a
  status code whose \<^verbatim>\<open>.json()\<close> raises or yields a value.
\<close>

datatype http_result =
    Raised py_exception
  | Response int "py_exception + json"

text \<open>The timer callbacks the code registers with \<^verbatim>\<open>bpy.app.timers.register\<close>.\<close>

datatype callback = UpdateUI | ShowNotification string string

text \<open>What the code does to the outside, in the order it does it.\<close>

datatype event =
    Report string string
  | HttpPostFile string string string nat
  | HttpPostJson string json nat
  | HttpGet string nat
  | DesktopNotify string string nat
  | TimerRegister callback
  | StartThread string
  | Sleep nat
  | Print string

text \<open>
  The file system: what is at a path, if anything.  A node has its bytes, the
  exception \<^verbatim>\<open>open(path, 'rb')\<close> raises on it, if any (no permission to read,
  a directory), and the exception \<^verbatim>\<open>os.remove(path)\<close> raises on it, if any (no
  permission to unlink, a directory); a failed \<^verbatim>\<open>os.remove\<close> leaves the node.
  \<^verbatim>\<open>os.path.exists\<close> holds for every node.
\<close>

record fs_node =
  content :: string
  open_error :: "py_exception option"
  remove_error :: "py_exception option"

type_synonym fs = "string \<rightharpoonup> fs_node"

text \<open>The Blender state the operators read: the scene's render settings and \<^verbatim>\<open>bpy.data.filepath\<close>.\<close>

record blender_ctx =
  resolution_x :: int
  resolution_y :: int
  engine :: string
  cycles_samples :: int
  data_filepath :: string

text \<open>\<^verbatim>\<open>os.path.basename\<close> and \<^verbatim>\<open>os.path.join\<close> (POSIX).\<close>

definition basename :: "string \<Rightarrow> string" where
  "basename p = rev (takeWhile (\<lambda>c. c \<noteq> CHR ''/'') (rev p))"

definition path_join :: "string \<Rightarrow> string \<Rightarrow> string" where
  "path_join a b =
     (if b \<noteq> [] \<and> hd b = CHR ''/'' then b
      else if a = [] \<or> last a = CHR ''/'' then a @ b
      else a @ ''/'' @ b)"

definition apostrophe :: string where
  "apostrophe = [CHR 0x27]"

text \<open>The two emoji of the notification texts, as UTF-8.\<close>

definition party_popper :: string where
  "party_popper = [CHR 0xF0, CHR 0x9F, CHR 0x8E, CHR 0x89]"

definition cross_mark :: string where
  "cross_mark = [CHR 0xE2, CHR 0x9D, CHR 0x8C]"

section \<open>Submitting a render\<close>

text \<open>\<^verbatim>\<open>get_scene_name\<close>, lines 230--235.\<close>

definition get_scene_name :: "blender_ctx \<Rightarrow> string" where
  "get_scene_name ctx =
     (if data_filepath ctx \<noteq> [] then basename (data_filepath ctx) else ''Untitled.blend'')"

text \<open>
  What one run of the submit operator meets: the temp directory, the clock,
  whether saving the scene raises or which file it leaves at the temp path, and
  the server's answers to the upload and to the job request.
\<close>

record submit_env =
  tempdir :: string
  clock :: int
  save_result :: "py_exception + fs_node"
  upload_response :: http_result
  submit_response :: http_result
  clock_hm :: string

text \<open>\<^verbatim>\<open>save_scene_to_temp\<close>, lines 144--151.\<close>

definition save_scene_to_temp :: "submit_env \<Rightarrow> fs \<Rightarrow> (py_exception + string) \<times> fs" where
  "save_scene_to_temp env files =
     (let temp_filename = ''remote_render_'' @ str_int (clock env) @ ''.blend'';
          temp_path = path_join (tempdir env) temp_filename
      in case save_result env of
           Inl e \<Rightarrow> (Inl e, files)
         | Inr node \<Rightarrow> (Inr temp_path, files(temp_path \<mapsto> node)))"

text \<open>
  The \<^verbatim>\<open>try\<close> block of \<^verbatim>\<open>upload_file\<close> with its \<^verbatim>\<open>except\<close> clause, lines 155--168.
  Python's \<^verbatim>\<open>None\<close> is \<^verbatim>\<open>JNull\<close>.
\<close>

definition upload_attempt :: "string \<Rightarrow> string \<Rightarrow> http_result \<Rightarrow> fs \<Rightarrow> json \<times> event list" where
  "upload_attempt url file_path http files =
     (case files file_path of
        None \<Rightarrow>
          (JNull, [Report ''ERROR'' (''Upload error: [Errno 2] No such file or directory: ''
                                      @ apostrophe @ file_path @ apostrophe)])
      | Some node \<Rightarrow>
          (case open_error node of
             Some e \<Rightarrow> (JNull, [Report ''ERROR'' (''Upload error: '' @ str_of e)])
           | None \<Rightarrow>
               (let post = HttpPostFile (url @ ''/api/files/upload'') (basename file_path)
                             (content node) 60
                in case http of
                     Raised e \<Rightarrow> (JNull, [post, Report ''ERROR'' (''Upload error: '' @ str_of e)])
                   | Response code body \<Rightarrow>
                       if code = 200 \<or> code = 201
                       then (case body of
                               Inl e \<Rightarrow> (JNull, [post, Report ''ERROR'' (''Upload error: '' @ str_of e)])
                             | Inr v \<Rightarrow> (v, [post]))
                       else (JNull, [post, Report ''ERROR'' (''Upload failed: '' @ str_int code)]))))"

text \<open>
  \<^verbatim>\<open>upload_file\<close>, lines 153--171: the attempt, then the \<^verbatim>\<open>finally\<close> clause.  When
  \<^verbatim>\<open>os.remove\<close> raises there, its exception leaves the function in place of the
  value the attempt was about to return, and the file stays.
\<close>

definition upload_file ::
  "string \<Rightarrow> string \<Rightarrow> http_result \<Rightarrow> fs \<Rightarrow> (py_exception + json) \<times> fs \<times> event list" where
  "upload_file url file_path http files =
     (case upload_attempt url file_path http files of
        (result, evs) \<Rightarrow>
          (case files file_path of
             None \<Rightarrow> (Inr result, files, evs)
           | Some node \<Rightarrow>
               (case remove_error node of
                  Some e \<Rightarrow> (Inl e, files, evs)
                | None \<Rightarrow> (Inr result, files(file_path := None), evs))))"

text \<open>
  Lines 175--210 of \<^verbatim>\<open>submit_render_job\<close>: the endpoint and the payload.  In both
  branches \<^verbatim>\<open>upload_result.get\<close> is the first expression evaluated; it raises when
  the upload result is not a dict.
\<close>

definition job_request ::
  "ServerIntegratedSettings \<Rightarrow> blender_ctx \<Rightarrow> json \<Rightarrow> py_exception + (string \<times> json)" where
  "job_request settings ctx upload_result =
     (case py_get upload_result ''fileName'' (JString ''unknown.blend'') of
        Inl e \<Rightarrow> Inl e
      | Inr file_name \<Rightarrow>
          if render_quality settings = FAST \<or> render_quality settings = HIGH
          then Inr (server_url settings @ ''/api/presets/render'',
                 JObject
                   [(''fileName'', file_name),
                    (''quality'', JString (quality_name (render_quality settings))),
                    (''startFrame'', JInt (start_frame settings)),
                    (''endFrame'', JInt (end_frame settings)),
                    (''resolutionX'', JInt (resolution_x ctx)),
                    (''resolutionY'', JInt (resolution_y ctx)),
                    (''outputFormat'', JString ''PNG''),
                    (''description'',
                       JString (''Blender render job from '' @ get_scene_name ctx @ '' (''
                                @ quality_name (render_quality settings) @ '' quality)''))])
          else Inr (server_url settings @ ''/api/jobs'',
                 JObject
                   [(''fileName'', file_name),
                    (''renderSettings'',
                       JObject
                         [(''startFrame'', JInt (start_frame settings)),
                          (''endFrame'', JInt (end_frame settings)),
                          (''resolutionX'', JInt (resolution_x ctx)),
                          (''resolutionY'', JInt (resolution_y ctx)),
                          (''samples'',
                             if engine ctx = ''CYCLES'' then JInt (cycles_samples ctx) else JNull),
                          (''outputFormat'', JString ''PNG''),
                          (''renderEngine'', JString (engine ctx)),
                          (''deviceType'', JString ''AUTO'')]),
                    (''description'', JString (''Blender render job from '' @ get_scene_name ctx))]))"

text \<open>
  \<^verbatim>\<open>submit_render_job\<close>, lines 173--228.  Building the request is outside the
  \<^verbatim>\<open>try\<close>, so its exception leaves the function; the POST is inside.
\<close>

definition submit_render_job ::
  "ServerIntegratedSettings \<Rightarrow> blender_ctx \<Rightarrow> json \<Rightarrow> http_result
     \<Rightarrow> (py_exception + json) \<times> event list" where
  "submit_render_job settings ctx upload_result http =
     (case job_request settings ctx upload_result of
        Inl e \<Rightarrow> (Inl e, [])
      | Inr (endpoint, job_data) \<Rightarrow>
          (let post = HttpPostJson endpoint job_data 30
           in case http of
                Raised e \<Rightarrow> (Inr JNull, [post, Report ''ERROR'' (''Job submission error: '' @ str_of e)])
              | Response code body \<Rightarrow>
                  if code = 200 \<or> code = 201
                  then (case body of
                          Inl e \<Rightarrow>
                            (Inr JNull, [post, Report ''ERROR'' (''Job submission error: '' @ str_of e)])
                        | Inr v \<Rightarrow> (Inr v, [post]))
                  else (Inr JNull,
                        [post, Report ''ERROR'' (''Job submission failed: '' @ str_int code)])))"

datatype op_result = FINISHED | CANCELLED

text \<open>
  Lines 127--131 and 133--138 of \<^verbatim>\<open>INTEGRATED_OT_submit_render.execute\<close>: the
  record is added first, then filled in; an exception while reading the job id
  leaves the added record at its defaults.
\<close>

definition add_job ::
  "submit_env \<Rightarrow> blender_ctx \<Rightarrow> json \<Rightarrow> ServerIntegratedSettings
     \<Rightarrow> op_result \<times> ServerIntegratedSettings \<times> event list" where
  "add_job env ctx job_result settings =
     (case (case py_get job_result ''id'' (JString ''unknown'') of
              Inl e \<Rightarrow> Inl e | Inr v \<Rightarrow> string_prop v) of
        Inl e \<Rightarrow>
          (CANCELLED, settings\<lparr>jobs := jobs settings @ [default_job]\<rparr>,
           [Report ''ERROR'' (''Error submitting job: '' @ str_of e)])
      | Inr jid \<Rightarrow>
          (let new_job = default_job
                 \<lparr>job_id := jid, scene_name := get_scene_name ctx,
                  submitted_time := clock_hm env, status := ''SUBMITTED''\<rparr>
           in (FINISHED, settings\<lparr>jobs := jobs settings @ [new_job]\<rparr>,
               [StartThread jid,
                Report ''INFO'' (''Render submitted successfully! Job ID: '' @ jid)])))"

text \<open>\<^verbatim>\<open>INTEGRATED_OT_submit_render.execute\<close>, lines 110--142.\<close>

definition submit_render ::
  "submit_env \<Rightarrow> blender_ctx \<Rightarrow> fs \<Rightarrow> ServerIntegratedSettings
     \<Rightarrow> op_result \<times> ServerIntegratedSettings \<times> fs \<times> event list" where
  "submit_render env ctx files settings =
     (let ev0 = [Report ''INFO'' ''Preparing scene for upload...'']
      in case save_scene_to_temp env files of
           (Inl e, files1) \<Rightarrow>
             (CANCELLED, settings, files1,
              ev0 @ [Report ''ERROR'' (''Error submitting job: '' @ str_of e)])
         | (Inr temp_blend_file, files1) \<Rightarrow>
             (case upload_file (server_url settings) temp_blend_file (upload_response env) files1 of
                (Inl e, files2, ev_up) \<Rightarrow>
                  (CANCELLED, settings, files2,
                   ev0 @ [Report ''INFO'' ''Uploading scene to server...''] @ ev_up
                     @ [Report ''ERROR'' (''Error submitting job: '' @ str_of e)])
              | (Inr upload_result, files2, ev_up) \<Rightarrow>
                  (let ev1 = ev0 @ [Report ''INFO'' ''Uploading scene to server...''] @ ev_up
                   in if \<not> py_truthy upload_result then (CANCELLED, settings, files2, ev1)
                      else
                        (let ev2 = ev1 @ [Report ''INFO'' ''Submitting render job...'']
                         in case submit_render_job settings ctx upload_result (submit_response env) of
                              (Inl e, ev_s) \<Rightarrow>
                                (CANCELLED, settings, files2,
                                 ev2 @ ev_s @ [Report ''ERROR'' (''Error submitting job: '' @ str_of e)])
                            | (Inr job_result, ev_s) \<Rightarrow>
                                if \<not> py_truthy job_result
                                then (CANCELLED, settings, files2, ev2 @ ev_s)
                                else (case add_job env ctx job_result settings of
                                        (r, settings', ev_a) \<Rightarrow>
                                          (r, settings', files2, ev2 @ ev_s @ ev_a))))))"

section \<open>Notifications\<close>

text \<open>
  The optional \<^verbatim>\<open>plyer\<close> module: \<^verbatim>\<open>import plyer\<close> raises \<^verbatim>\<open>ImportError\<close>, or the
  module is there and \<^verbatim>\<open>plyer.notification.notify\<close> returns or raises.
\<close>

datatype plyer = PlyerMissing | PlyerNotify "py_exception option"

text \<open>\<^verbatim>\<open>show_blender_notification\<close>, lines 313--321: the report is deferred to a timer.\<close>

definition show_blender_notification :: "string \<Rightarrow> string \<Rightarrow> event list" where
  "show_blender_notification level message = [TimerRegister (ShowNotification level message)]"

text \<open>
  The timer callbacks, run later by the host: \<^verbatim>\<open>show_notification\<close> (lines
  315--319) and \<^verbatim>\<open>update_ui\<close> (lines 263--268).  Both catch everything; the flag
  says whether the host call inside raises.
\<close>

fun run_callback :: "bool \<Rightarrow> callback \<Rightarrow> event list" where
  "run_callback raises (ShowNotification level message) =
     (if raises then [Print (''['' @ level @ ''] '' @ message)] else [Report level message])"
| "run_callback raises UpdateUI = []"

text \<open>
  The body shared by the two desktop notifications: the \<^verbatim>\<open>try\<close> block and its
  \<^verbatim>\<open>except ImportError\<close> clause.  The result is the exception that leaves the
  function, if any.
\<close>

definition desktop_or_fallback ::
  "plyer \<Rightarrow> string \<Rightarrow> string \<Rightarrow> event list \<Rightarrow> py_exception option \<times> event list" where
  "desktop_or_fallback ply title message fallback =
     (case ply of
        PlyerMissing \<Rightarrow> (None, fallback)
      | PlyerNotify None \<Rightarrow> (None, [DesktopNotify title message 10])
      | PlyerNotify (Some e) \<Rightarrow>
          if exc_of e = ImportError then (None, DesktopNotify title message 10 # fallback)
          else (Some e, [DesktopNotify title message 10]))"

text \<open>\<^verbatim>\<open>show_completion_notification\<close>, lines 289--299.\<close>

definition show_completion_notification ::
  "plyer \<Rightarrow> string \<Rightarrow> py_exception option \<times> event list" where
  "show_completion_notification ply scene =
     desktop_or_fallback ply
       (''Render Complete! '' @ party_popper)
       (''Scene '' @ apostrophe @ scene @ apostrophe @ '' has finished rendering'')
       (show_blender_notification ''INFO'' (party_popper @ '' Render Complete: '' @ scene))"

text \<open>\<^verbatim>\<open>show_failure_notification\<close>, lines 301--311.\<close>

definition show_failure_notification ::
  "plyer \<Rightarrow> string \<Rightarrow> string \<Rightarrow> py_exception option \<times> event list" where
  "show_failure_notification ply scene err =
     desktop_or_fallback ply
       (''Render Failed '' @ cross_mark)
       (''Scene '' @ apostrophe @ scene @ apostrophe @ '' failed: '' @ str_take 50 err @ ''...'')
       (show_blender_notification ''ERROR''
          (cross_mark @ '' Render Failed: '' @ scene @ '' - '' @ str_take 50 err))"

section \<open>Monitoring a job\<close>

text \<open>Lines 243--247: the index of the first record with the job id.\<close>

fun find_job :: "RemoteRenderJob list \<Rightarrow> string \<Rightarrow> nat option" where
  "find_job [] jid = None"
| "find_job (j # js) jid = (if job_id j = jid then Some 0 else map_option Suc (find_job js jid))"

text \<open>Line 260: \<^verbatim>\<open>'errorMessage' in job_data and job_data['errorMessage']\<close>.\<close>

fun truthy_error_message :: "json \<Rightarrow> json option" where
  "truthy_error_message (JObject kvs) =
     (case map_of kvs ''errorMessage'' of
        None \<Rightarrow> None
      | Some v \<Rightarrow> if py_truthy v then Some v else None)"
| "truthy_error_message _ = None"

text \<open>
  Lines 256--257: \<^verbatim>\<open>new_status\<close>, a \<^verbatim>\<open>str\<close> that the \<^verbatim>\<open>status\<close> property accepts; anything
  else raises.
\<close>

definition new_status_of :: "json \<Rightarrow> py_exception + string" where
  "new_status_of job_data =
     (case py_get job_data ''status'' (JString ''UNKNOWN'') of
        Inl e \<Rightarrow> Inl e
      | Inr new_status \<Rightarrow> str_value new_status)"

text \<open>Line 258: the progress the body gives, as the \<^verbatim>\<open>progress\<close> property stores it.\<close>

definition new_progress_of :: "json \<Rightarrow> py_exception + int" where
  "new_progress_of job_data =
     (case py_get job_data ''progress'' (JInt 0) of
        Inl e \<Rightarrow> Inl e
      | Inr p \<Rightarrow> (case py_int p of Inl e \<Rightarrow> Inl e | Inr n \<Rightarrow> progress_prop n))"

text \<open>Lines 260--261: the error message to store, if the body has a true one.\<close>

definition new_error_of :: "json \<Rightarrow> py_exception + string option" where
  "new_error_of job_data =
     (case truthy_error_message job_data of
        None \<Rightarrow> Inr None
      | Some m \<Rightarrow> (case string_prop m of Inl e \<Rightarrow> Inl e | Inr msg \<Rightarrow> Inr (Some msg)))"

text \<open>
  Lines 256--261: the writes to the live record, one after the other.  The
  result is the record as far as it was written, and the new status or the
  exception that stopped the writes.
\<close>

definition apply_job_data ::
  "json \<Rightarrow> RemoteRenderJob \<Rightarrow> RemoteRenderJob \<times> (py_exception + string)" where
  "apply_job_data job_data job =
     (case new_status_of job_data of
        Inl e \<Rightarrow> (job, Inl e)
      | Inr s \<Rightarrow>
          (let job1 = job\<lparr>status := c_string s\<rparr>
           in case new_progress_of job_data of
                Inl e \<Rightarrow> (job1, Inl e)
              | Inr n \<Rightarrow>
                  (let job2 = job1\<lparr>progress := n\<rparr>
                   in case new_error_of job_data of
                        Inl e \<Rightarrow> (job2, Inl e)
                      | Inr None \<Rightarrow> (job2, Inr s)
                      | Inr (Some msg) \<Rightarrow> (job2\<lparr>error_message := msg\<rparr>, Inr s))))"

text \<open>
  Lines 272--282, on the record after the writes above: the flags, then the
  notification.  The result is the exception that leaves the notification, if
  any; without one the second redraw timer is registered and the loop breaks.
\<close>

definition finish_job ::
  "bool \<Rightarrow> plyer \<Rightarrow> string \<Rightarrow> RemoteRenderJob
     \<Rightarrow> RemoteRenderJob \<times> py_exception option \<times> event list" where
  "finish_job notifications ply new_status job =
     (let job' = job\<lparr>is_complete := True, has_notification := True\<rparr>
      in case (if new_status = ''COMPLETED'' \<and> notifications
               then show_completion_notification ply (scene_name job')
               else if new_status = ''FAILED''
               then show_failure_notification ply (scene_name job') (error_message job')
               else (None, [])) of
           (Some e, evs) \<Rightarrow> (job', Some e, evs)
         | (None, evs) \<Rightarrow> (job', None, evs @ [TimerRegister UpdateUI]))"

text \<open>How control leaves the \<^verbatim>\<open>try\<close> block of one iteration.\<close>

datatype flow = Break | Slept nat | Raise py_exception

text \<open>
  What one iteration of the polling loop meets: the indices the user removed
  with the Remove button since the previous iteration, the server's answer to
  the status request, and the state of the notification module.
\<close>

record tick_env =
  removed_before :: "int list"
  poll_response :: http_result
  plyer_state :: plyer

text \<open>
  The \<^verbatim>\<open>try\<close> block of \<^verbatim>\<open>monitor_job\<close>, lines 243--284.  The lookup and the writes
  of one iteration see the same store: the removals of the interactive thread
  take place between iterations, and a removal while the request is in flight
  is not part of the model.
\<close>

definition poll_try ::
  "ServerIntegratedSettings \<Rightarrow> string \<Rightarrow> http_result \<Rightarrow> plyer
     \<Rightarrow> ServerIntegratedSettings \<times> event list \<times> flow" where
  "poll_try settings jid response ply =
     (case find_job (jobs settings) jid of
        None \<Rightarrow> (settings, [], Break)
      | Some i \<Rightarrow>
          (let request = HttpGet (server_url settings @ ''/api/jobs/'' @ jid) 10
           in case response of
                Raised e \<Rightarrow> (settings, [request], Raise e)
              | Response code body \<Rightarrow>
                  if code = 200
                  then (case body of
                          Inl e \<Rightarrow> (settings, [request], Raise e)
                        | Inr job_data \<Rightarrow>
                            (case apply_job_data job_data (jobs settings ! i) of
                               (job1, Inl e) \<Rightarrow>
                                 (settings\<lparr>jobs := (jobs settings)[i := job1]\<rparr>, [request], Raise e)
                             | (job1, Inr new_status) \<Rightarrow>
                                 if new_status = ''COMPLETED'' \<or> new_status = ''FAILED''
                                 then (case finish_job (show_notifications settings)
                                              ply new_status job1 of
                                         (job2, exc, evs) \<Rightarrow>
                                           (settings\<lparr>jobs := (jobs settings)[i := job2]\<rparr>,
                                            [request, TimerRegister UpdateUI] @ evs,
                                            (case exc of Some e \<Rightarrow> Raise e | None \<Rightarrow> Break)))
                                 else (settings\<lparr>jobs := (jobs settings)[i := job1]\<rparr>,
                                       [request, TimerRegister UpdateUI, Sleep 5], Slept 5)))
                  else (settings, [request, Sleep 5], Slept 5)))"

text \<open>What the loop does after an iteration.\<close>

datatype tick_outcome = Stopped | Continue nat

text \<open>
  One iteration of \<^verbatim>\<open>while True\<close>, lines 241--287: the \<^verbatim>\<open>try\<close> block, and the
  \<^verbatim>\<open>except Exception\<close> clause that sleeps ten seconds.  \<^verbatim>\<open>Continue n\<close> says that
  the iteration ended in a sleep of \<^verbatim>\<open>n\<close> seconds and the loop goes on.
\<close>

definition poll_tick ::
  "ServerIntegratedSettings \<Rightarrow> string \<Rightarrow> http_result \<Rightarrow> plyer
     \<Rightarrow> ServerIntegratedSettings \<times> event list \<times> tick_outcome" where
  "poll_tick settings jid response ply =
     (case poll_try settings jid response ply of
        (settings', evs, Break) \<Rightarrow> (settings', evs, Stopped)
      | (settings', evs, Slept n) \<Rightarrow> (settings', evs, Continue n)
      | (settings', evs, Raise e) \<Rightarrow> (settings', evs @ [Sleep 10], Continue 10))"

text \<open>
  \<^verbatim>\<open>monitor_job\<close>, lines 237--287.  The loop has no bound of its own; it runs
  against a script with one entry per iteration.  Before an iteration the
  removals of the interactive thread take place.  The flag of the result says
  whether the loop has ended (\<^verbatim>\<open>break\<close>); when the script runs out first, the loop
  is still running.
\<close>

fun monitor_job ::
  "tick_env list \<Rightarrow> string \<Rightarrow> ServerIntegratedSettings
     \<Rightarrow> ServerIntegratedSettings \<times> event list \<times> bool" where
  "monitor_job [] jid settings = (settings, [], False)"
| "monitor_job (env # envs) jid settings =
     (case poll_tick (fold clear_job (removed_before env) settings) jid
             (poll_response env) (plyer_state env) of
        (settings1, evs, Stopped) \<Rightarrow> (settings1, evs, True)
      | (settings1, evs, Continue n) \<Rightarrow>
          (case monitor_job envs jid settings1 of
             (settings2, evs2, ended) \<Rightarrow> (settings2, evs @ evs2, ended)))"

text \<open>The invariant of the data model on one record.\<close>

definition complete_iff_terminal :: "RemoteRenderJob \<Rightarrow> bool" where
  "complete_iff_terminal j = (is_complete j = (status j = ''COMPLETED'' \<or> status j = ''FAILED''))"

section \<open>Observations and sample inputs\<close>

text \<open>The JSON requests POSTed in a trace: endpoint and payload.\<close>

definition posted :: "event list \<Rightarrow> (string \<times> json) list" where
  "posted evs =
     concat (map (\<lambda>e. case e of HttpPostJson url payload t \<Rightarrow> [(url, payload)] | _ \<Rightarrow> []) evs)"

text \<open>
  A session with one running job, the FAST preset and frames 1 to 10, on a
  1920 by 1080 Cycles scene saved as \<^verbatim>\<open>/home/u/a.blend\<close>.
\<close>

definition example_settings :: ServerIntegratedSettings where
  "example_settings =
     \<lparr>server_url = ''http://localhost:8080'', start_frame = 1, end_frame = 10,
      jobs = [default_job\<lparr>job_id := ''job-1'', scene_name := ''a.blend''\<rparr>],
      show_notifications = True, render_quality = FAST,
      server_status = ''Unknown'', last_check = []\<rparr>"

definition example_ctx :: blender_ctx where
  "example_ctx =
     \<lparr>resolution_x = 1920, resolution_y = 1080, engine = ''CYCLES'', cycles_samples = 128,
      data_filepath = ''/home/u/a.blend''\<rparr>"

text \<open>A submission that the server accepts.\<close>

definition example_submit :: submit_env where
  "example_submit =
     \<lparr>tempdir = ''/tmp'', clock = 1700000000, save_result = Inr \<lparr>content = ''BLEND'', open_error = None, remove_error = None\<rparr>,
      upload_response = Response 200 (Inr (JObject [(''fileName'', JString ''scene.blend'')])),
      submit_response = Response 201 (Inr (JObject [(''id'', JString ''job-2'')])),
      clock_hm = ''12:30''\<rparr>"

section \<open>Clearing completed jobs\<close>

lemma clear_all_loop_filter:
  "n \<le> length js \<Longrightarrow>
   clear_all_loop n js = Inr (filter (\<lambda>j. \<not> is_complete j) (take n js) @ drop n js)"
proof (induction n arbitrary: js)
  case 0
  show ?case by simp
next
  case (Suc n)
  then have lt: "n < length js" by simp
  have split: "take (Suc n) js = take n js @ [js ! n]"
    using lt by (simp add: take_Suc_conv_app_nth)
  show ?case
  proof (cases "is_complete (js ! n)")
    case True
    let ?js' = "take n js @ drop (Suc n) js"
    have len: "n \<le> length ?js'" using lt by simp
    have "clear_all_loop (Suc n) js = clear_all_loop n ?js'"
      using lt True by (simp add: collection_remove_def)
    also have "\<dots> = Inr (filter (\<lambda>j. \<not> is_complete j) (take n ?js') @ drop n ?js')"
      by (rule Suc.IH [OF len])
    also have "take n ?js' = take n js" using lt by simp
    also have "drop n ?js' = drop (Suc n) js" using lt by simp
    finally show ?thesis using True split by simp
  next
    case False
    have "clear_all_loop (Suc n) js = clear_all_loop n js"
      using lt False by simp
    also have "\<dots> = Inr (filter (\<lambda>j. \<not> is_complete j) (take n js) @ drop n js)"
      using Suc.IH lt by simp
    also have "drop n js = js ! n # drop (Suc n) js"
      using lt by (simp add: Cons_nth_drop_Suc)
    finally show ?thesis using False split by simp
  qed
qed

lemma clear_all_jobs_filter:
  "clear_all_jobs s = Inr (s\<lparr>jobs := filter (\<lambda>j. \<not> is_complete j) (jobs s)\<rparr>)"
  by (simp add: clear_all_jobs_def clear_all_loop_filter)

text \<open>
  C9.  Clearing all completed jobs never raises, removes exactly the records
  whose completion flag is set and keeps the others in their order; a second
  application returns the store the first one produced.
\<close>

theorem clear_all_jobs_idempotent:
  "clear_all_jobs s = Inr (s\<lparr>jobs := filter (\<lambda>j. \<not> is_complete j) (jobs s)\<rparr>)
   \<and> (case clear_all_jobs s of Inl e \<Rightarrow> Inl e | Inr s' \<Rightarrow> clear_all_jobs s') = clear_all_jobs s"
  by (simp add: clear_all_jobs_filter)

section \<open>Helper lemmas\<close>

lemma posted_simps:
  "posted [] = []"
  "posted (HttpPostJson u p t # evs) = (u, p) # posted evs"
  "posted (Report l m # evs) = posted evs"
  by (simp_all add: posted_def)

lemma find_job_None: "find_job js jid = None \<longleftrightarrow> jid \<notin> job_id ` set js"
  by (induction js) auto

lemma str_take_numeral:
  "str_take (numeral k) [] = []"
  "str_take (numeral k) (c # cs) =
     c # takeWhile is_continuation cs @ str_take (pred_numeral k) (dropWhile is_continuation cs)"
  by (simp_all add: numeral_eq_Suc)

lemma c_string_terminal:
  "c_string ''COMPLETED'' = ''COMPLETED''" "c_string ''FAILED'' = ''FAILED''"
  by (simp_all add: c_string_def)

lemma apply_job_data_ok:
  assumes "new_status_of job_data = Inr st" "new_progress_of job_data = Inr p"
      and "new_error_of job_data = Inr m"
  shows "apply_job_data job_data job =
           (job\<lparr>status := c_string st, progress := p,
               error_message := (case m of None \<Rightarrow> error_message job | Some msg \<Rightarrow> msg)\<rparr>, Inr st)"
  using assms by (cases m) (simp_all add: apply_job_data_def Let_def)

lemma desktop_or_fallback_quiet:
  assumes "\<forall>e. ply = PlyerNotify (Some e) \<longrightarrow> exc_of e = ImportError"
  shows "fst (desktop_or_fallback ply title message fallback) = None"
  using assms by (auto simp add: desktop_or_fallback_def split: plyer.splits option.splits)

lemma notified_case:
  "(case r of (Some e, evs) \<Rightarrow> (j, Some e, evs) | (None, evs) \<Rightarrow> (j, None, evs @ [t]))
     = (j, fst r, snd r @ (if fst r = None then [t] else []))"
  by (cases r; cases "fst r") auto

lemma finish_job_result:
  "finish_job notifications ply st job =
     (let r = (if st = ''COMPLETED'' \<and> notifications
               then show_completion_notification ply (scene_name job)
               else if st = ''FAILED''
               then show_failure_notification ply (scene_name job) (error_message job)
               else (None, []))
      in (job\<lparr>is_complete := True, has_notification := True\<rparr>, fst r,
          snd r @ (if fst r = None then [TimerRegister UpdateUI] else [])))"
  unfolding finish_job_def Let_def notified_case by simp

lemma terminal_tick_result:
  assumes found: "find_job (jobs settings) jid = Some i"
      and st: "new_status_of job_data = Inr st" "st = ''COMPLETED'' \<or> st = ''FAILED''"
      and pr: "new_progress_of job_data = Inr p"
      and er: "new_error_of job_data = Inr m"
      and r: "r = (if st = ''COMPLETED''
                   then (if show_notifications settings
                         then show_completion_notification ply (scene_name (jobs settings ! i))
                         else (None, []))
                   else show_failure_notification ply (scene_name (jobs settings ! i))
                          (case m of None \<Rightarrow> error_message (jobs settings ! i) | Some msg \<Rightarrow> msg))"
  shows "poll_tick settings jid (Response 200 (Inr job_data)) ply =
           (settings\<lparr>jobs := (jobs settings)
              [i := (jobs settings ! i)
                 \<lparr>status := st, progress := p,
                  error_message := (case m of None \<Rightarrow> error_message (jobs settings ! i) | Some msg \<Rightarrow> msg),
                  is_complete := True, has_notification := True\<rparr>]\<rparr>,
            [HttpGet (server_url settings @ ''/api/jobs/'' @ jid) 10, TimerRegister UpdateUI]
              @ snd r @ (if fst r = None then [TimerRegister UpdateUI] else [Sleep 10]),
            if fst r = None then Stopped else Continue 10)"
proof -
  let ?job = "(jobs settings ! i)
                 \<lparr>status := st, progress := p,
                  error_message := (case m of None \<Rightarrow> error_message (jobs settings ! i) | Some msg \<Rightarrow> msg)\<rparr>"
  have cst: "c_string st = st"
    using st(2) c_string_terminal by auto
  have data: "apply_job_data job_data (jobs settings ! i) = (?job, Inr st)"
    using apply_job_data_ok [OF st(1) pr er] by (simp add: cst)
  have r': "(if st = ''COMPLETED'' \<and> show_notifications settings
               then show_completion_notification ply (scene_name ?job)
               else if st = ''FAILED''
               then show_failure_notification ply (scene_name ?job) (error_message ?job)
               else (None, [])) = r"
    using st(2) r by auto
  have fin: "finish_job (show_notifications settings) ply st ?job =
           (?job\<lparr>is_complete := True, has_notification := True\<rparr>, fst r,
            snd r @ (if fst r = None then [TimerRegister UpdateUI] else []))"
    unfolding finish_job_result r' Let_def ..
  have body: "poll_try settings jid (Response 200 (Inr job_data)) ply =
          (settings\<lparr>jobs := (jobs settings)[i := ?job\<lparr>is_complete := True, has_notification := True\<rparr>]\<rparr>,
           [HttpGet (server_url settings @ ''/api/jobs/'' @ jid) 10, TimerRegister UpdateUI]
             @ snd r @ (if fst r = None then [TimerRegister UpdateUI] else []),
           (case fst r of Some e \<Rightarrow> Raise e | None \<Rightarrow> Break))"
    unfolding poll_try_def using st(2) by (simp add: found data fin Let_def)
  show ?thesis
    unfolding poll_tick_def body by (cases "fst r") simp_all
qed

section \<open>Choice of endpoint and payload\<close>

text \<open>
  C1.  With a dict as upload result, \<^verbatim>\<open>submit_render_job\<close> POSTs exactly one JSON
  request.  For FAST and HIGH it goes to \<^verbatim>\<open>/api/presets/render\<close> with the eight
  preset keys, with \<^verbatim>\<open>outputFormat\<close> PNG; for CUSTOM it goes to \<^verbatim>\<open>/api/jobs\<close> with
  \<^verbatim>\<open>fileName\<close>, \<^verbatim>\<open>renderSettings\<close> and \<^verbatim>\<open>description\<close>.  The request is to the preset
  endpoint if and only if the quality is FAST or HIGH, whatever the other
  settings, the scene and the server's answer are.
\<close>

theorem submit_render_job_posts:
  "posted (snd (submit_render_job settings ctx (JObject kvs) http)) =
     [if render_quality settings = FAST \<or> render_quality settings = HIGH
      then (server_url settings @ ''/api/presets/render'',
            JObject
              [(''fileName'', case map_of kvs ''fileName'' of None \<Rightarrow> JString ''unknown.blend'' | Some v \<Rightarrow> v),
               (''quality'', JString (quality_name (render_quality settings))),
               (''startFrame'', JInt (start_frame settings)),
               (''endFrame'', JInt (end_frame settings)),
               (''resolutionX'', JInt (resolution_x ctx)),
               (''resolutionY'', JInt (resolution_y ctx)),
               (''outputFormat'', JString ''PNG''),
               (''description'',
                  JString (''Blender render job from '' @ get_scene_name ctx @ '' (''
                           @ quality_name (render_quality settings) @ '' quality)''))])
      else (server_url settings @ ''/api/jobs'',
            JObject
              [(''fileName'', case map_of kvs ''fileName'' of None \<Rightarrow> JString ''unknown.blend'' | Some v \<Rightarrow> v),
               (''renderSettings'',
                  JObject
                    [(''startFrame'', JInt (start_frame settings)),
                     (''endFrame'', JInt (end_frame settings)),
                     (''resolutionX'', JInt (resolution_x ctx)),
                     (''resolutionY'', JInt (resolution_y ctx)),
                     (''samples'', if engine ctx = ''CYCLES'' then JInt (cycles_samples ctx) else JNull),
                     (''outputFormat'', JString ''PNG''),
                     (''renderEngine'', JString (engine ctx)),
                     (''deviceType'', JString ''AUTO'')]),
               (''description'', JString (''Blender render job from '' @ get_scene_name ctx))])]
   \<and> ((\<exists>payload. posted (snd (submit_render_job settings ctx (JObject kvs) http))
                    = [(server_url settings @ ''/api/presets/render'', payload)])
        \<longleftrightarrow> render_quality settings \<in> {FAST, HIGH})"
  by (simp add: submit_render_job_def job_request_def Let_def posted_simps
           split: http_result.splits sum.splits)

theorem submit_render_job_posts_witness:
  "posted (snd (submit_render_job example_settings example_ctx
                  (JObject [(''fileName'', JString ''scene.blend'')])
                  (Response 201 (Inr (JObject [(''id'', JString ''job-2'')])))))
     = [(''http://localhost:8080/api/presets/render'',
         JObject
           [(''fileName'', JString ''scene.blend''), (''quality'', JString ''FAST''),
            (''startFrame'', JInt 1), (''endFrame'', JInt 10),
            (''resolutionX'', JInt 1920), (''resolutionY'', JInt 1080),
            (''outputFormat'', JString ''PNG''),
            (''description'', JString ''Blender render job from a.blend (FAST quality)'')])]"
  using submit_render_job_posts [of example_settings example_ctx
          "[(''fileName'', JString ''scene.blend'')]"
          "Response 201 (Inr (JObject [(''id'', JString ''job-2'')]))"]
  by (simp add: example_settings_def example_ctx_def get_scene_name_def basename_def)

section \<open>The completion flag and the status\<close>

text \<open>
  C2.  The record of the sample session is not complete and its status is not
  terminal.  The server answers the poll with status COMPLETED and a null
  progress: the status is written, \<^verbatim>\<open>int(None)\<close> raises, the handler sleeps, and
  the record is left with status COMPLETED and \<^verbatim>\<open>is_complete\<close> false.
\<close>

theorem poll_tick_breaks_invariant:
  "complete_iff_terminal (hd (jobs example_settings))
   \<and> poll_tick example_settings ''job-1''
        (Response 200 (Inr (JObject [(''status'', JString ''COMPLETED''), (''progress'', JNull)])))
        (PlyerNotify None)
      = (example_settings
           \<lparr>jobs := [default_job\<lparr>job_id := ''job-1'', scene_name := ''a.blend'', status := ''COMPLETED''\<rparr>]\<rparr>,
         [HttpGet ''http://localhost:8080/api/jobs/job-1'' 10, Sleep 10], Continue 10)
   \<and> \<not> complete_iff_terminal
         (hd (jobs (fst (poll_tick example_settings ''job-1''
           (Response 200 (Inr (JObject [(''status'', JString ''COMPLETED''), (''progress'', JNull)])))
           (PlyerNotify None)))))"
  by (simp add: poll_tick_def poll_try_def apply_job_data_def new_status_of_def new_progress_of_def
        example_settings_def default_job_def complete_iff_terminal_def c_string_def Let_def)

section \<open>Failed polls\<close>

text \<open>
  C3, as stated, fails: the server answers 500, the record is unchanged, but the
  iteration ends in the normal sleep of five seconds, not in the backoff of ten.
\<close>

theorem non_200_no_backoff_counterexample:
  "poll_tick example_settings ''job-1'' (Response 500 (Inr JNull)) (PlyerNotify None)
     = (example_settings, [HttpGet ''http://localhost:8080/api/jobs/job-1'' 10, Sleep 5], Continue 5)"
  by (simp add: poll_tick_def poll_try_def example_settings_def default_job_def)

text \<open>
  C3, amended.  On an iteration that finds the record and whose request raises,
  whose response is not 200, whose body does not parse, or whose body gives no
  status the property accepts (it is not a dict, or its status is not a
  string), the settings and every record are unchanged and the iteration ends
  in a sleep, so no exception leaves the loop.  The sleep is ten seconds after
  an exception and five seconds after a response that is not 200.
\<close>

theorem failed_tick_keeps_record:
  assumes "find_job (jobs settings) jid = Some i"
  shows "poll_tick settings jid (Raised e) ply
           = (settings, [HttpGet (server_url settings @ ''/api/jobs/'' @ jid) 10, Sleep 10], Continue 10)
       \<and> (code \<noteq> 200 \<longrightarrow>
            poll_tick settings jid (Response code body) ply
              = (settings, [HttpGet (server_url settings @ ''/api/jobs/'' @ jid) 10, Sleep 5], Continue 5))
       \<and> poll_tick settings jid (Response 200 (Inl e)) ply
           = (settings, [HttpGet (server_url settings @ ''/api/jobs/'' @ jid) 10, Sleep 10], Continue 10)
       \<and> (new_status_of job_data = Inl e \<longrightarrow>
            poll_tick settings jid (Response 200 (Inr job_data)) ply
              = (settings, [HttpGet (server_url settings @ ''/api/jobs/'' @ jid) 10, Sleep 10], Continue 10))"
  using assms
  by (auto simp add: poll_tick_def poll_try_def apply_job_data_def Let_def)

theorem failed_tick_keeps_record_witness:
  "find_job (jobs example_settings) ''job-1'' = Some 0
   \<and> poll_tick example_settings ''job-1'' (Raised (PyExc RequestException ''connection refused'')) PlyerMissing
       = (example_settings, [HttpGet ''http://localhost:8080/api/jobs/job-1'' 10, Sleep 10], Continue 10)
   \<and> poll_tick example_settings ''job-1'' (Response 500 (Inr JNull)) PlyerMissing
       = (example_settings, [HttpGet ''http://localhost:8080/api/jobs/job-1'' 10, Sleep 5], Continue 5)
   \<and> poll_tick example_settings ''job-1'' (Response 200 (Inl (PyExc RequestException ''connection refused''))) PlyerMissing
       = (example_settings, [HttpGet ''http://localhost:8080/api/jobs/job-1'' 10, Sleep 10], Continue 10)
   \<and> new_status_of (JObject [(''status'', JInt 3)]) = Inl (PyExc TypeError ''expected a string type'')
   \<and> poll_tick example_settings ''job-1'' (Response 200 (Inr (JObject [(''status'', JInt 3)]))) PlyerMissing
       = (example_settings, [HttpGet ''http://localhost:8080/api/jobs/job-1'' 10, Sleep 10], Continue 10)"
proof -
  have found: "find_job (jobs example_settings) ''job-1'' = Some 0"
    by (simp add: example_settings_def default_job_def)
  have url: "server_url example_settings @ ''/api/jobs/'' @ ''job-1'' = ''http://localhost:8080/api/jobs/job-1''"
    by (simp add: example_settings_def)
  have bad: "new_status_of (JObject [(''status'', JInt 3)]) = Inl (PyExc TypeError ''expected a string type'')"
    by (simp add: new_status_of_def)
  show ?thesis
    using found bad
      failed_tick_keeps_record [OF found, of "PyExc RequestException ''connection refused''" PlyerMissing
        500 "Inr JNull" "JObject [(''status'', JInt 3)]"]
      failed_tick_keeps_record [OF found, of "PyExc TypeError ''expected a string type''" PlyerMissing
        500 "Inr JNull" "JObject [(''status'', JInt 3)]"]
    unfolding url by simp
qed

section \<open>Terminal status\<close>

text \<open>
  C4, as stated, fails: with desktop notifications switched off in the settings,
  a poll that returns COMPLETED sets both flags and ends the loop, but no
  notification of any kind is made, although the notification module works.
\<close>

theorem completed_without_notification_counterexample:
  "poll_tick (example_settings\<lparr>show_notifications := False\<rparr>) ''job-1''
      (Response 200 (Inr (JObject [(''status'', JString ''COMPLETED''), (''progress'', JInt 100)])))
      (PlyerNotify None)
     = (example_settings
          \<lparr>show_notifications := False,
           jobs := [default_job\<lparr>job_id := ''job-1'', scene_name := ''a.blend'', status := ''COMPLETED'',
                                progress := 100, is_complete := True, has_notification := True\<rparr>]\<rparr>,
        [HttpGet ''http://localhost:8080/api/jobs/job-1'' 10, TimerRegister UpdateUI, TimerRegister UpdateUI],
        Stopped)"
  by (simp add: poll_tick_def poll_try_def apply_job_data_def new_status_of_def new_progress_of_def
        new_error_of_def progress_prop_def finish_job_def c_string_def
        example_settings_def default_job_def Let_def)

text \<open>
  C4, amended.  Take an iteration that finds the record and gets a 200 response
  whose status is COMPLETED or FAILED and whose status, progress and error
  message are written without an exception (no record being removed while the
  request is in flight).  Whatever the notification module does, the record
  gets the new values with \<^verbatim>\<open>is_complete\<close> and \<^verbatim>\<open>has_notification\<close> set, and after
  the request and the redraw timer the notification is made: the completion
  notification for COMPLETED when \<^verbatim>\<open>show_notifications\<close> is on and none when it is
  off, the failure notification for FAILED always.  When the desktop
  notification raises nothing but \<^verbatim>\<open>ImportError\<close>, the iteration registers the
  second redraw timer and the loop ends.
\<close>

theorem terminal_tick_finishes:
  assumes found: "find_job (jobs settings) jid = Some i"
      and st: "new_status_of job_data = Inr st" "st = ''COMPLETED'' \<or> st = ''FAILED''"
      and pr: "new_progress_of job_data = Inr p"
      and er: "new_error_of job_data = Inr m"
  shows "fst (poll_tick settings jid (Response 200 (Inr job_data)) ply) =
           settings\<lparr>jobs := (jobs settings)
              [i := (jobs settings ! i)
                 \<lparr>status := st, progress := p,
                  error_message := (case m of None \<Rightarrow> error_message (jobs settings ! i) | Some msg \<Rightarrow> msg),
                  is_complete := True, has_notification := True\<rparr>]\<rparr>
       \<and> (\<exists>rest. fst (snd (poll_tick settings jid (Response 200 (Inr job_data)) ply)) =
            [HttpGet (server_url settings @ ''/api/jobs/'' @ jid) 10, TimerRegister UpdateUI]
              @ (if st = ''COMPLETED''
                 then (if show_notifications settings
                       then snd (show_completion_notification ply (scene_name (jobs settings ! i)))
                       else [])
                 else snd (show_failure_notification ply (scene_name (jobs settings ! i))
                             (case m of None \<Rightarrow> error_message (jobs settings ! i) | Some msg \<Rightarrow> msg)))
              @ rest)
       \<and> ((\<forall>e. ply = PlyerNotify (Some e) \<longrightarrow> exc_of e = ImportError) \<longrightarrow>
            snd (poll_tick settings jid (Response 200 (Inr job_data)) ply) =
              ([HttpGet (server_url settings @ ''/api/jobs/'' @ jid) 10, TimerRegister UpdateUI]
                 @ (if st = ''COMPLETED''
                    then (if show_notifications settings
                          then snd (show_completion_notification ply (scene_name (jobs settings ! i)))
                          else [])
                    else snd (show_failure_notification ply (scene_name (jobs settings ! i))
                                (case m of None \<Rightarrow> error_message (jobs settings ! i) | Some msg \<Rightarrow> msg)))
                 @ [TimerRegister UpdateUI],
               Stopped)
          \<and> snd (snd (monitor_job
                     (\<lparr>removed_before = [], poll_response = Response 200 (Inr job_data),
                       plyer_state = ply\<rparr> # envs) jid settings)))"
proof -
  define r where "r = (if st = ''COMPLETED''
                   then (if show_notifications settings
                         then show_completion_notification ply (scene_name (jobs settings ! i))
                         else (None, []))
                   else show_failure_notification ply (scene_name (jobs settings ! i))
                          (case m of None \<Rightarrow> error_message (jobs settings ! i) | Some msg \<Rightarrow> msg))"
  have evs: "snd r = (if st = ''COMPLETED''
                 then (if show_notifications settings
                       then snd (show_completion_notification ply (scene_name (jobs settings ! i)))
                       else [])
                 else snd (show_failure_notification ply (scene_name (jobs settings ! i))
                             (case m of None \<Rightarrow> error_message (jobs settings ! i) | Some msg \<Rightarrow> msg)))"
    by (simp add: r_def)
  note tick = terminal_tick_result [OF found st pr er r_def]
  have quiet: "fst r = None" if "\<forall>e. ply = PlyerNotify (Some e) \<longrightarrow> exc_of e = ImportError"
    using desktop_or_fallback_quiet [OF that]
    by (simp add: r_def show_completion_notification_def show_failure_notification_def)
  have first: "fst (poll_tick settings jid (Response 200 (Inr job_data)) ply) =
           settings\<lparr>jobs := (jobs settings)
              [i := (jobs settings ! i)
                 \<lparr>status := st, progress := p,
                  error_message := (case m of None \<Rightarrow> error_message (jobs settings ! i) | Some msg \<Rightarrow> msg),
                  is_complete := True, has_notification := True\<rparr>]\<rparr>"
    unfolding tick by simp
  have second: "\<exists>rest. fst (snd (poll_tick settings jid (Response 200 (Inr job_data)) ply)) =
            [HttpGet (server_url settings @ ''/api/jobs/'' @ jid) 10, TimerRegister UpdateUI]
              @ snd r @ rest"
    unfolding tick by simp
  have third: "snd (poll_tick settings jid (Response 200 (Inr job_data)) ply) =
              ([HttpGet (server_url settings @ ''/api/jobs/'' @ jid) 10, TimerRegister UpdateUI]
                 @ snd r @ [TimerRegister UpdateUI], Stopped)
          \<and> snd (snd (monitor_job
                     (\<lparr>removed_before = [], poll_response = Response 200 (Inr job_data),
                       plyer_state = ply\<rparr> # envs) jid settings))"
    if "\<forall>e. ply = PlyerNotify (Some e) \<longrightarrow> exc_of e = ImportError"
    using quiet [OF that] by (simp add: tick)
  show ?thesis
    using first second third unfolding evs by blast
qed

theorem terminal_tick_finishes_witness:
  "find_job (jobs example_settings) ''job-1'' = Some 0
   \<and> new_status_of (JObject [(''status'', JString ''FAILED''), (''progress'', JInt 40),
                               (''errorMessage'', JString ''out of memory'')]) = Inr ''FAILED''
   \<and> poll_tick example_settings ''job-1''
        (Response 200 (Inr (JObject [(''status'', JString ''FAILED''), (''progress'', JInt 40),
                                      (''errorMessage'', JString ''out of memory'')])))
        PlyerMissing
      = (example_settings
           \<lparr>jobs := [default_job\<lparr>job_id := ''job-1'', scene_name := ''a.blend'', status := ''FAILED'',
                                progress := 40, error_message := ''out of memory'',
                                is_complete := True, has_notification := True\<rparr>]\<rparr>,
         [HttpGet ''http://localhost:8080/api/jobs/job-1'' 10, TimerRegister UpdateUI,
          TimerRegister (ShowNotification ''ERROR''
                           (cross_mark @ '' Render Failed: a.blend - out of memory'')),
          TimerRegister UpdateUI],
         Stopped)
   \<and> snd (snd (monitor_job
        [\<lparr>removed_before = [],
          poll_response = Response 200 (Inr (JObject [(''status'', JString ''FAILED''), (''progress'', JInt 40),
                                      (''errorMessage'', JString ''out of memory'')])),
          plyer_state = PlyerMissing\<rparr>] ''job-1'' example_settings))
   \<and> fst (poll_tick example_settings ''job-1''
        (Response 200 (Inr (JObject [(''status'', JString ''FAILED''), (''progress'', JInt 40),
                                      (''errorMessage'', JString ''out of memory'')])))
        (PlyerNotify (Some (PyExc RuntimeError ''No usable implementation found!''))))
      = example_settings
           \<lparr>jobs := [default_job\<lparr>job_id := ''job-1'', scene_name := ''a.blend'', status := ''FAILED'',
                                progress := 40, error_message := ''out of memory'',
                                is_complete := True, has_notification := True\<rparr>]\<rparr>"
proof -
  let ?data = "JObject [(''status'', JString ''FAILED''), (''progress'', JInt 40),
                        (''errorMessage'', JString ''out of memory'')]"
  have found: "find_job (jobs example_settings) ''job-1'' = Some 0"
    by (simp add: example_settings_def default_job_def)
  have st: "new_status_of ?data = Inr ''FAILED''"
    by (simp add: new_status_of_def)
  have pr: "new_progress_of ?data = Inr 40"
    by (simp add: new_progress_of_def progress_prop_def)
  have er: "new_error_of ?data = Inr (Some ''out of memory'')"
    by (simp add: new_error_of_def string_prop_def c_string_def)
  have terminal: "''FAILED'' = ''COMPLETED'' \<or> ''FAILED'' = ''FAILED''"
    by simp
  have cut: "str_take 50 ''out of memory'' = ''out of memory''"
    by (simp add: str_take_numeral is_continuation_def)
  have stored: "(jobs example_settings)
          [0 := (jobs example_settings ! 0)
             \<lparr>status := ''FAILED'', progress := 40, error_message := ''out of memory'',
              is_complete := True, has_notification := True\<rparr>]
        = [default_job\<lparr>job_id := ''job-1'', scene_name := ''a.blend'', status := ''FAILED'',
                                progress := 40, error_message := ''out of memory'',
                                is_complete := True, has_notification := True\<rparr>]"
    by (simp add: example_settings_def default_job_def)
  have name: "scene_name (jobs example_settings ! 0) = ''a.blend''"
    "server_url example_settings = ''http://localhost:8080''"
    by (simp_all add: example_settings_def)
  show ?thesis
    using found st
      terminal_tick_finishes [OF found st terminal pr er, of PlyerMissing "[]"]
      terminal_tick_finishes [OF found st terminal pr er,
        of "PlyerNotify (Some (PyExc RuntimeError ''No usable implementation found!''))" "[]"]
    by (simp add: stored name cut show_failure_notification_def desktop_or_fallback_def
          show_blender_notification_def prod_eq_iff)
qed

section \<open>Cleaning up the temporary file\<close>

text \<open>
  C5, as stated, fails: the file at the path can be read but not unlinked.  The
  upload succeeds with status 201, \<^verbatim>\<open>os.remove\<close> raises in the \<^verbatim>\<open>finally\<close> clause,
  the exception leaves \<^verbatim>\<open>upload_file\<close>, and the file is still there.
\<close>

theorem upload_file_keeps_file_counterexample:
  "upload_file ''http://localhost:8080'' ''/proc/sys/kernel/ostype''
      (Response 201 (Inr (JObject [(''fileName'', JString ''ostype'')])))
      [''/proc/sys/kernel/ostype'' \<mapsto>
         \<lparr>content = ''Linux'', open_error = None,
          remove_error = Some (PyExc OSError ''[Errno 1] Operation not permitted'')\<rparr>]
     = (Inl (PyExc OSError ''[Errno 1] Operation not permitted''),
        [''/proc/sys/kernel/ostype'' \<mapsto>
           \<lparr>content = ''Linux'', open_error = None,
            remove_error = Some (PyExc OSError ''[Errno 1] Operation not permitted'')\<rparr>],
        [HttpPostFile ''http://localhost:8080/api/files/upload'' ''ostype'' ''Linux'' 60])"
  by (simp add: upload_file_def upload_attempt_def basename_def Let_def)

text \<open>
  C5, amended.  For every path at which there is nothing, or a file that
  \<^verbatim>\<open>os.remove\<close> can remove: \<^verbatim>\<open>upload_file\<close> returns, and afterwards nothing exists at
  the path, whether the upload succeeded, the server answered with an error
  status, or an exception was raised in the \<^verbatim>\<open>try\<close> block.
\<close>

theorem upload_file_removes:
  assumes "\<forall>node. files file_path = Some node \<longrightarrow> remove_error node = None"
  shows "fst (snd (upload_file url file_path http files)) file_path = None
       \<and> (\<exists>result. fst (upload_file url file_path http files) = Inr result)"
  using assms
  by (auto simp add: upload_file_def split: prod.splits option.splits)

theorem upload_file_removes_witness:
  "map_option remove_error
      ([''/tmp/a.blend'' \<mapsto> \<lparr>content = ''BLEND'', open_error = None, remove_error = None\<rparr>]
         ''/tmp/a.blend'') = Some None
   \<and> fst (snd (upload_file ''http://localhost:8080'' ''/tmp/a.blend''
                  (Raised (PyExc RequestException ''connection refused''))
                  [''/tmp/a.blend'' \<mapsto> \<lparr>content = ''BLEND'', open_error = None, remove_error = None\<rparr>]))
         ''/tmp/a.blend'' = None
   \<and> fst (upload_file ''http://localhost:8080'' ''/tmp/a.blend''
             (Raised (PyExc RequestException ''connection refused''))
             [''/tmp/a.blend'' \<mapsto> \<lparr>content = ''BLEND'', open_error = None, remove_error = None\<rparr>])
       = Inr JNull"
proof -
  have ok: "\<forall>node. [''/tmp/a.blend'' \<mapsto> \<lparr>content = ''BLEND'', open_error = None, remove_error = None\<rparr>]
              ''/tmp/a.blend'' = Some node \<longrightarrow> remove_error node = None"
    by simp
  have result: "fst (upload_file ''http://localhost:8080'' ''/tmp/a.blend''
             (Raised (PyExc RequestException ''connection refused''))
             [''/tmp/a.blend'' \<mapsto> \<lparr>content = ''BLEND'', open_error = None, remove_error = None\<rparr>])
       = Inr JNull"
    by (simp add: upload_file_def upload_attempt_def Let_def)
  show ?thesis
    using result
      upload_file_removes
        [where files = "[''/tmp/a.blend'' \<mapsto> \<lparr>content = ''BLEND'', open_error = None, remove_error = None\<rparr>]"
           and file_path = "''/tmp/a.blend''" and url = "''http://localhost:8080''"
           and http = "Raised (PyExc RequestException ''connection refused'')", OF ok]
    by simp
qed

section \<open>A removed job\<close>

text \<open>
  C6.  When the store holds no record with the poller's job id at the start of
  an iteration, the loop ends there: nothing is requested, reported or
  notified, and the settings with all their records are as the iteration found
  them.
\<close>

theorem removed_job_stops_poller:
  assumes "jid \<notin> job_id ` set (jobs (fold clear_job (removed_before env) settings))"
  shows "monitor_job (env # envs) jid settings
           = (fold clear_job (removed_before env) settings, [], True)"
  using assms by (simp add: poll_tick_def poll_try_def find_job_None [symmetric])

theorem removed_job_stops_poller_witness:
  "''job-1'' \<notin> job_id ` set (jobs (fold clear_job [0] example_settings))
   \<and> monitor_job
        [\<lparr>removed_before = [0], poll_response = Response 200 (Inr JNull), plyer_state = PlyerNotify None\<rparr>]
        ''job-1'' example_settings
      = (example_settings\<lparr>jobs := []\<rparr>, [], True)"
proof -
  have gone: "clear_job 0 example_settings = example_settings\<lparr>jobs := []\<rparr>"
    by (simp add: clear_job_def collection_remove_def example_settings_def)
  have absent: "''job-1'' \<notin> job_id ` set (jobs (fold clear_job
      (removed_before \<lparr>removed_before = [0], poll_response = Response 200 (Inr JNull),
                       plyer_state = PlyerNotify None\<rparr>) example_settings))"
    by (simp add: gone)
  show ?thesis
    using removed_job_stops_poller [OF absent, of "[]"] absent by (simp add: gone)
qed

section \<open>Notifications that raise\<close>

text \<open>
  C7.  The \<^verbatim>\<open>plyer\<close> module is installed and its \<^verbatim>\<open>notify\<close> raises a
  \<^verbatim>\<open>RuntimeError\<close>: the clause \<^verbatim>\<open>except ImportError\<close> does not catch it and the
  exception leaves \<^verbatim>\<open>show_completion_notification\<close>.  In the polling loop the
  exception skips the \<^verbatim>\<open>break\<close>: on a server that answers COMPLETED, each
  iteration polls, notifies, fails and sleeps ten seconds, and after two
  iterations the loop is still running.
\<close>

theorem notification_failure_escapes:
  "show_completion_notification
      (PlyerNotify (Some (PyExc RuntimeError ''No usable implementation found!''))) ''a.blend''
     = (Some (PyExc RuntimeError ''No usable implementation found!''),
        [DesktopNotify (''Render Complete! '' @ party_popper)
           (''Scene '' @ apostrophe @ ''a.blend'' @ apostrophe @ '' has finished rendering'') 10])
   \<and> monitor_job
        [\<lparr>removed_before = [],
          poll_response = Response 200 (Inr (JObject [(''status'', JString ''COMPLETED''), (''progress'', JInt 100)])),
          plyer_state = PlyerNotify (Some (PyExc RuntimeError ''No usable implementation found!''))\<rparr>,
         \<lparr>removed_before = [],
          poll_response = Response 200 (Inr (JObject [(''status'', JString ''COMPLETED''), (''progress'', JInt 100)])),
          plyer_state = PlyerNotify (Some (PyExc RuntimeError ''No usable implementation found!''))\<rparr>]
        ''job-1'' example_settings
     = (example_settings
          \<lparr>jobs := [default_job\<lparr>job_id := ''job-1'', scene_name := ''a.blend'', status := ''COMPLETED'',
                                progress := 100, is_complete := True, has_notification := True\<rparr>]\<rparr>,
        [HttpGet ''http://localhost:8080/api/jobs/job-1'' 10, TimerRegister UpdateUI,
         DesktopNotify (''Render Complete! '' @ party_popper)
           (''Scene '' @ apostrophe @ ''a.blend'' @ apostrophe @ '' has finished rendering'') 10,
         Sleep 10,
         HttpGet ''http://localhost:8080/api/jobs/job-1'' 10, TimerRegister UpdateUI,
         DesktopNotify (''Render Complete! '' @ party_popper)
           (''Scene '' @ apostrophe @ ''a.blend'' @ apostrophe @ '' has finished rendering'') 10,
         Sleep 10],
        False)"
  by (simp add: show_completion_notification_def desktop_or_fallback_def
        poll_tick_def poll_try_def apply_job_data_def new_status_of_def new_progress_of_def
        new_error_of_def progress_prop_def finish_job_def c_string_def
        example_settings_def default_job_def Let_def)

section \<open>The result of an upload\<close>

text \<open>
  C8, as stated, fails: the file is there and can be removed, the server answers
  204, a 2xx status, with a JSON body, and \<^verbatim>\<open>upload_file\<close> returns \<^verbatim>\<open>None\<close>.
\<close>

theorem upload_file_204_counterexample:
  "fst (upload_file ''http://localhost:8080'' ''/tmp/a.blend''
         (Response 204 (Inr (JObject [(''fileName'', JString ''a.blend'')])))
         [''/tmp/a.blend'' \<mapsto> \<lparr>content = ''BLEND'', open_error = None, remove_error = None\<rparr>])
     = Inr JNull"
  by (simp add: upload_file_def upload_attempt_def Let_def)

text \<open>
  C8, amended.  \<^verbatim>\<open>upload_file\<close> returns the parsed body exactly when the file can
  be opened, the request returns a response, the status code is 200 or 201, the
  body parses, and the removal of the file in the \<^verbatim>\<open>finally\<close> clause does not
  raise.  In every other case it returns no upload result: \<^verbatim>\<open>None\<close> for a missing
  or unreadable file, a failed request, a body that does not parse and any
  other status, the other 2xx codes among them, and the exception of
  \<^verbatim>\<open>os.remove\<close> when the removal fails.
\<close>

theorem upload_file_result:
  "fst (upload_file url file_path http files) =
     (case files file_path of
        None \<Rightarrow> Inr JNull
      | Some node \<Rightarrow>
          (case remove_error node of
             Some e \<Rightarrow> Inl e
           | None \<Rightarrow>
               Inr (case open_error node of
                      Some e \<Rightarrow> JNull
                    | None \<Rightarrow>
                        (case http of
                           Raised e \<Rightarrow> JNull
                         | Response code body \<Rightarrow>
                             (case body of
                                Inl e \<Rightarrow> JNull
                              | Inr v \<Rightarrow> if code = 200 \<or> code = 201 then v else JNull)))))"
  by (simp add: upload_file_def upload_attempt_def Let_def
           split: prod.splits option.splits http_result.splits sum.splits)

theorem upload_file_result_witness:
  "fst (upload_file ''http://localhost:8080'' ''/tmp/a.blend''
         (Response 201 (Inr (JObject [(''fileName'', JString ''a.blend'')])))
         [''/tmp/a.blend'' \<mapsto> \<lparr>content = ''BLEND'', open_error = None, remove_error = None\<rparr>])
     = Inr (JObject [(''fileName'', JString ''a.blend'')])
   \<and> fst (upload_file ''http://localhost:8080'' ''/proc/sys/kernel/ostype''
         (Response 201 (Inr (JObject [(''fileName'', JString ''ostype'')])))
         [''/proc/sys/kernel/ostype'' \<mapsto>
            \<lparr>content = ''Linux'', open_error = None,
             remove_error = Some (PyExc OSError ''[Errno 1] Operation not permitted'')\<rparr>])
     = Inl (PyExc OSError ''[Errno 1] Operation not permitted'')"
  using upload_file_result [of "''http://localhost:8080''" "''/tmp/a.blend''"
          "Response 201 (Inr (JObject [(''fileName'', JString ''a.blend'')]))"
          "[''/tmp/a.blend'' \<mapsto> \<lparr>content = ''BLEND'', open_error = None, remove_error = None\<rparr>]"]
        upload_file_result [of "''http://localhost:8080''" "''/proc/sys/kernel/ostype''"
          "Response 201 (Inr (JObject [(''fileName'', JString ''ostype'')]))"
          "[''/proc/sys/kernel/ostype'' \<mapsto>
            \<lparr>content = ''Linux'', open_error = None,
             remove_error = Some (PyExc OSError ''[Errno 1] Operation not permitted'')\<rparr>]"]
  by simp

section \<open>The badge of a new job\<close>

lemma add_job_finished:
  assumes "fst (add_job env ctx job_result settings) = FINISHED"
  shows "\<exists>jid. fst (snd (add_job env ctx job_result settings))
           = settings\<lparr>jobs := jobs settings @
               [default_job\<lparr>job_id := jid, scene_name := get_scene_name ctx,
                            submitted_time := clock_hm env, status := ''SUBMITTED''\<rparr>]\<rparr>"
  using assms by (auto simp add: add_job_def Let_def split: sum.splits)

lemma submit_render_finished:
  assumes "fst (submit_render env ctx files settings) = FINISHED"
  shows "\<exists>job_result.
           fst (add_job env ctx job_result settings) = FINISHED
         \<and> fst (snd (submit_render env ctx files settings))
             = fst (snd (add_job env ctx job_result settings))"
  using assms
  by (auto simp add: submit_render_def Let_def split: prod.splits sum.splits if_splits)
     (metis fst_conv snd_conv)

text \<open>
  C10.  When the submit operator finishes, the store is the old one with one
  record appended; the record has \<^verbatim>\<open>has_notification\<close> true and \<^verbatim>\<open>is_complete\<close>
  false, with status SUBMITTED; the count behind the badge has grown by one and
  the badge is drawn.
\<close>

theorem submitted_job_is_new:
  assumes "fst (submit_render env ctx files settings) = FINISHED"
  shows "\<exists>j. jobs (fst (snd (submit_render env ctx files settings))) = jobs settings @ [j]
             \<and> has_notification j \<and> \<not> is_complete j \<and> status j = ''SUBMITTED''
             \<and> new_count (jobs (fst (snd (submit_render env ctx files settings))))
                 = Suc (new_count (jobs settings))
             \<and> badge_shown (jobs (fst (snd (submit_render env ctx files settings))))"
proof -
  obtain job_result where fin: "fst (add_job env ctx job_result settings) = FINISHED"
    and same: "fst (snd (submit_render env ctx files settings))
                 = fst (snd (add_job env ctx job_result settings))"
    using submit_render_finished [OF assms] by blast
  obtain jid where added: "fst (snd (add_job env ctx job_result settings))
           = settings\<lparr>jobs := jobs settings @
               [default_job\<lparr>job_id := jid, scene_name := get_scene_name ctx,
                            submitted_time := clock_hm env, status := ''SUBMITTED''\<rparr>]\<rparr>"
    using add_job_finished [OF fin] by blast
  show ?thesis
    unfolding same added
    by (simp add: default_job_def new_count_def badge_shown_def)
qed

theorem submitted_job_is_new_witness:
  "fst (submit_render example_submit example_ctx Map.empty example_settings) = FINISHED
   \<and> jobs (fst (snd (submit_render example_submit example_ctx Map.empty example_settings)))
       = jobs example_settings @
           [default_job\<lparr>job_id := ''job-2'', scene_name := ''a.blend'', submitted_time := ''12:30''\<rparr>]
   \<and> new_count (jobs (fst (snd (submit_render example_submit example_ctx Map.empty example_settings)))) = 2
   \<and> badge_shown (jobs (fst (snd (submit_render example_submit example_ctx Map.empty example_settings))))"
proof -
  have run: "submit_render example_submit example_ctx Map.empty example_settings
      = (FINISHED,
         example_settings\<lparr>jobs := jobs example_settings @
           [default_job\<lparr>job_id := ''job-2'', scene_name := ''a.blend'', submitted_time := ''12:30''\<rparr>]\<rparr>,
         Map.empty,
         snd (snd (snd (submit_render example_submit example_ctx Map.empty example_settings))))"
    by (simp add: submit_render_def save_scene_to_temp_def upload_file_def upload_attempt_def
          submit_render_job_def job_request_def add_job_def string_prop_def c_string_def
          example_submit_def example_ctx_def
          example_settings_def get_scene_name_def basename_def default_job_def Let_def)
  have fin: "fst (submit_render example_submit example_ctx Map.empty example_settings) = FINISHED"
    by (subst run) simp
  have store: "fst (snd (submit_render example_submit example_ctx Map.empty example_settings))
        = example_settings\<lparr>jobs := jobs example_settings @
           [default_job\<lparr>job_id := ''job-2'', scene_name := ''a.blend'', submitted_time := ''12:30''\<rparr>]\<rparr>"
    by (subst run) simp
  show ?thesis
    using fin submitted_job_is_new [OF fin]
    unfolding store
    by (simp add: example_settings_def default_job_def new_count_def badge_shown_def)
qed

end
